theory Spec2Isabelle
  imports Complex_Main
begin

section \<open>Strings\<close>

text \<open>
  Python strings are modelled as \<open>string\<close>; the characters are the code points below 256.
  \<open>sq\<close> is the single quote.
\<close>

definition sq :: char where
  "sq = CHR 0x27"

text \<open>
  \<open>str.strip()\<close> removes leading and trailing whitespace. Among the code points below
  256 Python counts as whitespace: 9 to 13, 28 to 32, 133 and 160.
\<close>

definition is_space :: "char \<Rightarrow> bool" where
  "is_space c =
     (let n = (of_char c :: nat)
      in (9 \<le> n \<and> n \<le> 13) \<or> (28 \<le> n \<and> n \<le> 32) \<or> n = 133 \<or> n = 160)"

definition strip :: "string \<Rightarrow> string" where
  "strip s = rev (dropWhile is_space (rev (dropWhile is_space s)))"

text \<open>\<open>texto.replace("'", "''")\<close>: every single quote becomes two.\<close>

definition replace_quote :: "string \<Rightarrow> string" where
  "replace_quote s = concat (map (\<lambda>c. if c = sq then [sq, sq] else [c]) s)"

text \<open>\<open>entrada.split(',')\<close>: the pieces between commas; always at least one piece.\<close>

fun split_comma :: "string \<Rightarrow> string list" where
  "split_comma [] = [[]]"
| "split_comma (c # cs) =
     (if c = CHR '','' then [] # split_comma cs
      else (case split_comma cs of
              [] \<Rightarrow> [[c]]
            | p # ps \<Rightarrow> (c # p) # ps))"

text \<open>\<open>sep.join(xs)\<close>.\<close>

fun join :: "string \<Rightarrow> string list \<Rightarrow> string" where
  "join sep [] = []"
| "join sep [x] = x"
| "join sep (x # y # ys) = x @ sep @ join sep (y # ys)"

text \<open>\<open>str\<close> of an integer.\<close>

definition digit_chr :: "nat \<Rightarrow> char" where
  "digit_chr d = ''0123456789'' ! d"

function str_nat :: "nat \<Rightarrow> string" where
  "str_nat n = (if n < 10 then [digit_chr n] else str_nat (n div 10) @ [digit_chr (n mod 10)])"
  by pat_completeness auto
termination
  by (relation "measure id") auto

declare str_nat.simps [simp del]

definition str_int :: "int \<Rightarrow> string" where
  "str_int i = (if i < 0 then ''-'' @ str_nat (nat (- i)) else str_nat (nat i))"

text \<open>
  \<open>str(float(n))\<close> for an integer \<open>n\<close>, as it shows when pandas converts an integer column
  to \<open>float64\<close>; computed on integers. \<open>round_double\<close> gives the nearest double (ties to the
  even mantissa) as mantissa and binary exponent. A double below \<open>10^16\<close> prints as its
  integer value followed by \<open>.0\<close>; a larger one prints in exponent form with the fewest
  digits that still read back as the same double, the nearest to it among those.
\<close>

function bit_length :: "int \<Rightarrow> nat" where
  "bit_length n = (if n \<le> 0 then 0 else Suc (bit_length (n div 2)))"
  by pat_completeness auto
termination
  by (relation "measure nat") auto

declare bit_length.simps [simp del]

definition round_double :: "int \<Rightarrow> int \<times> nat" where
  "round_double n =
     (let b = bit_length n
      in if b \<le> 53 then (n, 0)
         else (let e = b - 53;
                   q = n div 2 ^ e;
                   r = n mod 2 ^ e;
                   half = 2 ^ (e - 1);
                   m = (if r > half \<or> (r = half \<and> odd q) then q + 1 else q)
               in if m = 2 ^ 53 then (2 ^ 52, Suc e) else (m, e)))"

definition rounds_to :: "int \<Rightarrow> nat \<Rightarrow> int \<Rightarrow> bool" where
  "rounds_to m e c =
     (let v = m * 2 ^ e;
          hi = 4 * v + 2 * 2 ^ e;
          lo = 4 * v - (if m = 2 ^ 52 then 2 ^ e else 2 * 2 ^ e)
      in if even m then lo \<le> 4 * c \<and> 4 * c \<le> hi else lo < 4 * c \<and> 4 * c < hi)"

definition candidates :: "int \<Rightarrow> nat \<Rightarrow> nat \<Rightarrow> int list" where
  "candidates m e k =
     (let v = m * 2 ^ e;
          s = 10 ^ (length (str_nat (nat v)) - k);
          c1 = (v div s) * s
      in filter (rounds_to m e) [c1, c1 + s])"

definition shortest :: "int \<Rightarrow> nat \<Rightarrow> int" where
  "shortest m e =
     (let v = m * 2 ^ e
      in case List.find (\<lambda>k. candidates m e k \<noteq> []) [1 ..< 18] of
           None \<Rightarrow> v
         | Some k \<Rightarrow>
             (case candidates m e k of
                [c1, c2] \<Rightarrow> if v - c1 \<le> c2 - v then c1 else c2
              | c # cs \<Rightarrow> c
              | [] \<Rightarrow> v))"

definition exponent_form :: "int \<Rightarrow> string" where
  "exponent_form c =
     (let ds = str_nat (nat c);
          ex = str_nat (length ds - 1);
          sig = rev (dropWhile (\<lambda>d. d = CHR ''0'') (rev ds))
      in if length sig = 1 then sig @ ''e+'' @ ex
         else [hd sig] @ ''.'' @ tl sig @ ''e+'' @ ex)"

definition float_str_nonneg :: "int \<Rightarrow> string" where
  "float_str_nonneg n =
     (case round_double n of
        (m, e) \<Rightarrow>
          (let v = m * 2 ^ e
           in if v < 10 ^ 16 then str_nat (nat v) @ ''.0''
              else exponent_form (shortest m e)))"

definition float_str :: "int \<Rightarrow> string" where
  "float_str n = (if n < 0 then ''-'' @ float_str_nonneg (- n) else float_str_nonneg n)"

section \<open>Predicate builder\<close>

text \<open>
  \<^verbatim>\<open>
  def escapar_sql_mejorado(texto):
      if not texto: return texto
      return texto.replace("'", "''").strip()
  \<close>
\<close>

definition escapar_sql_mejorado :: "string \<Rightarrow> string" where
  "escapar_sql_mejorado texto =
     (if texto = [] then texto else strip (replace_quote texto))"

text \<open>
  \<^verbatim>\<open>
  def procesar_terminos_multiples(entrada):
      if not entrada: return []
      return [escapar_sql_mejorado(termino.strip())
              for termino in entrada.split(',') if termino.strip()]
  \<close>
\<close>

definition procesar_terminos_multiples :: "string \<Rightarrow> string list" where
  "procesar_terminos_multiples entrada =
     (if entrada = [] then []
      else map (\<lambda>termino. escapar_sql_mejorado (strip termino))
             (filter (\<lambda>termino. strip termino \<noteq> []) (split_comma entrada)))"

text \<open>
  The request payload \<open>filtros\<close> is a JSON object. The model keeps its text fields as a map
  from field name to string and the record cap \<open>max_registros\<close> as an optional integer
  (on an integer, \<open>int(...)\<close> is the identity). \<open>filtros.get(k)\<close> is truthy when the key is
  present with a non-empty string: \<open>presente\<close> returns that string.
\<close>

record filtros =
  campos :: "string \<rightharpoonup> string"
  max_registros :: "int option"

definition presente :: "filtros \<Rightarrow> string \<Rightarrow> string option" where
  "presente f clave =
     (case campos f clave of
        None \<Rightarrow> None
      | Some v \<Rightarrow> if v = [] then None else Some v)"

text \<open>The dictionary \<open>campos_multiples\<close>, in insertion order.\<close>

definition campos_multiples :: "(string \<times> string) list" where
  "campos_multiples =
     [(''entidad'', ''entidad''),
      (''departamento'', ''departamento_entidad''),
      (''ciudad'', ''ciudad_entidad''),
      (''modalidades'', ''modalidad_de_contratacion'')]"

definition cond_proceso :: "filtros \<Rightarrow> string list" where
  "cond_proceso f =
     (case presente f ''proceso_de_compra'' of
        None \<Rightarrow> []
      | Some v \<Rightarrow>
          (let numeros_proceso = procesar_terminos_multiples v
           in if numeros_proceso = [] then []
              else [''proceso_de_compra IN (''
                    @ join '', '' (map (\<lambda>n. [sq] @ n @ [sq]) numeros_proceso)
                    @ '')'']))"

definition cond_multiple :: "filtros \<Rightarrow> string \<times> string \<Rightarrow> string list" where
  "cond_multiple f cc =
     (case presente f (fst cc) of
        None \<Rightarrow> []
      | Some v \<Rightarrow>
          (let terminos = procesar_terminos_multiples v
           in if terminos = [] then []
              else [''('' @ join '' OR ''
                      (map (\<lambda>termino. ''upper('' @ snd cc @ '') like upper('' @ [sq]
                                        @ ''%'' @ termino @ ''%'' @ [sq] @ '')'') terminos)
                    @ '')'']))"

definition cond_exacta :: "filtros \<Rightarrow> string \<Rightarrow> string list" where
  "cond_exacta f clave =
     (case presente f clave of
        None \<Rightarrow> []
      | Some v \<Rightarrow> [clave @ '' = '' @ [sq] @ escapar_sql_mejorado v @ [sq]])"

definition cond_fecha :: "filtros \<Rightarrow> string \<Rightarrow> string \<Rightarrow> string \<Rightarrow> string list" where
  "cond_fecha f clave op hora =
     (case presente f clave of
        None \<Rightarrow> []
      | Some v \<Rightarrow> [''fecha_de_publicacion_del '' @ op @ '' '' @ [sq] @ v @ hora @ [sq]])"

text \<open>
  \<open>construir_consulta_where\<close>: the list \<open>condiciones\<close> receives, in this order, the clause
  of \<open>proceso_de_compra\<close>, those of the four fields of \<open>campos_multiples\<close>, those of the two
  exact-match fields and those of the two dates; the result joins them with \<open>" AND "\<close>.
\<close>

definition condiciones :: "filtros \<Rightarrow> string list" where
  "condiciones f =
     cond_proceso f
     @ concat (map (cond_multiple f) campos_multiples)
     @ cond_exacta f ''estado_del_procedimiento''
     @ cond_exacta f ''estado_de_apertura_del_proceso''
     @ cond_fecha f ''fecha_inicio'' ''>='' ''T00:00:00''
     @ cond_fecha f ''fecha_fin'' ''<='' ''T23:59:59''"

definition construir_consulta_where :: "filtros \<Rightarrow> string" where
  "construir_consulta_where f = join '' AND '' (condiciones f)"

section \<open>Tables\<close>

text \<open>
  A cell value as pandas and the worksheet hold it. A float is kept as the text that
  \<open>str\<close> gives for it (\<open>CFloat ''nan''\<close> is the missing-value marker NaN), so that neither
  floating-point arithmetic nor the column types of pandas are part of the model.
\<close>

datatype cell = CNone | CBool bool | CInt int | CFloat string | CStr string

definition NaN :: cell where
  "NaN = CFloat ''nan''"

text \<open>
  A \<open>DataFrame\<close>: the column labels and the rows, each row a list of cells in column order.
  \<open>len(df)\<close> is the number of rows; \<open>df.empty\<close> holds when either axis has length zero;
  \<open>pd.DataFrame()\<close> has neither rows nor columns.
\<close>

record dataframe =
  columns :: "string list"
  rows :: "cell list list"

definition df_len :: "dataframe \<Rightarrow> int" where
  "df_len df = int (length (rows df))"

definition df_empty :: "dataframe \<Rightarrow> bool" where
  "df_empty df = (columns df = [] \<or> rows df = [])"

definition pd_DataFrame :: dataframe where
  "pd_DataFrame = \<lparr>columns = [], rows = []\<rparr>"

text \<open>
  \<open>pd.concat(pages, ignore_index=True)\<close>: the columns are the union of the pages' columns
  in order of first appearance; the rows are the pages' rows in order, each realigned to
  those columns, a column the page lacks being filled with NaN; then every column is
  converted to the common dtype of that column over the pages.

  The dtype of a column of a page is the one \<open>read_csv\<close> infers, read off its cells:
  \<open>bool\<close>, \<open>int64\<close>, \<open>uint64\<close> (integers of which some exceed \<open>int64\<close>), \<open>float64\<close>, or
  \<open>object\<close> for texts and mixtures. The common dtype of equal dtypes is that dtype, of
  different numeric dtypes it is \<open>float64\<close>, and \<open>object\<close> otherwise (booleans are not mixed
  with numbers). Pages without rows do not count. Only the conversion to \<open>float64\<close> changes
  a cell: an integer becomes the nearest double.
\<close>

datatype dtype = DBool | DInt64 | DUInt64 | DFloat64 | DObject

fun is_bool :: "cell \<Rightarrow> bool" where
  "is_bool (CBool b) = True"
| "is_bool v = False"

fun in_int64 :: "cell \<Rightarrow> bool" where
  "in_int64 (CInt n) = (- (2 ^ 63) \<le> n \<and> n < 2 ^ 63)"
| "in_int64 v = False"

fun in_uint64 :: "cell \<Rightarrow> bool" where
  "in_uint64 (CInt n) = (0 \<le> n \<and> n < 2 ^ 64)"
| "in_uint64 v = False"

fun is_float :: "cell \<Rightarrow> bool" where
  "is_float (CFloat r) = True"
| "is_float v = False"

definition column_dtype :: "cell list \<Rightarrow> dtype" where
  "column_dtype vs =
     (if list_all is_bool vs then DBool
      else if list_all in_int64 vs then DInt64
      else if list_all in_uint64 vs then DUInt64
      else if list_all is_float vs then DFloat64
      else DObject)"

definition numeric :: "dtype \<Rightarrow> bool" where
  "numeric d = (d = DInt64 \<or> d = DUInt64 \<or> d = DFloat64)"

definition common_dtype :: "dtype list \<Rightarrow> dtype" where
  "common_dtype ds =
     (case ds of
        [] \<Rightarrow> DObject
      | d # ds' \<Rightarrow>
          if list_all (\<lambda>d'. d' = d) ds' then d
          else if list_all numeric ds then DFloat64
          else DObject)"

fun coerce :: "dtype \<Rightarrow> cell \<Rightarrow> cell" where
  "coerce DFloat64 (CInt n) = CFloat (float_str n)"
| "coerce d v = v"

text \<open>
  The common dtypes of the first \<open>n\<close> columns over blocks of rows (one block per page), and
  the conversion of a row to them.
\<close>

definition concat_dtypes :: "nat \<Rightarrow> cell list list list \<Rightarrow> dtype list" where
  "concat_dtypes n blocks =
     map (\<lambda>j. common_dtype
                 (map (\<lambda>block. column_dtype (map (\<lambda>row. row ! j) block))
                    (filter (\<lambda>block. block \<noteq> []) blocks)))
         [0 ..< n]"

definition coerce_row :: "dtype list \<Rightarrow> cell list \<Rightarrow> cell list" where
  "coerce_row dtypes row = map (\<lambda>(d, v). coerce d v) (zip dtypes row)"

definition union_columns :: "string list list \<Rightarrow> string list" where
  "union_columns css = rev (remdups (rev (concat css)))"

definition reindex :: "string list \<Rightarrow> string list \<Rightarrow> cell list \<Rightarrow> cell list" where
  "reindex pcols cols row =
     map (\<lambda>c. case map_of (zip pcols row) c of None \<Rightarrow> NaN | Some v \<Rightarrow> v) cols"

definition pd_concat :: "dataframe list \<Rightarrow> dataframe" where
  "pd_concat pages =
     (let cols = union_columns (map columns pages);
          aligned = map (\<lambda>p. map (reindex (columns p) cols) (rows p)) pages;
          dtypes = concat_dtypes (length cols) aligned
      in \<lparr>columns = cols, rows = map (coerce_row dtypes) (concat aligned)\<rparr>)"

section \<open>Paginated fetcher\<close>

text \<open>
  One HTTP call is described by what the URL carries: \<open>$limit\<close>, \<open>$offset\<close> and, when the
  predicate is not empty, \<open>$where\<close> (the predicate, sent URL-encoded by \<open>quote\<close>).
\<close>

record request =
  limit :: int
  offset :: int
  where_param :: "string option"

text \<open>
  What \<open>requests.get\<close> does: it raises a transport exception (\<open>Timeout\<close>,
  \<open>ConnectionError\<close>; neither is an \<open>HTTPError\<close>), or it returns a response with a status
  code and a text. The third field of \<open>Response\<close> is what \<open>pd.read_csv\<close> makes of that
  text: \<open>None\<close> when it raises (for instance \<open>EmptyDataError\<close> on a text with no header
  line), otherwise the parsed page.

  The upstream is a function of the number of calls made before and of the request.
\<close>

datatype response =
    TransportFailure
  | Response nat string "dataframe option"

type_synonym upstream = "nat \<Rightarrow> request \<Rightarrow> response"

text \<open>
  The exceptions that leave \<open>descargar_datos_paginado\<close> and \<open>crear_excel_en_memoria\<close>.
  \<open>HTTPError\<close> carries the status and text of its response.
\<close>

datatype error =
    HTTPError nat string
  | TransportError
  | CsvError
  | ValueError
  | IllegalCharacterError

text \<open>\<open>response.raise_for_status()\<close> raises \<open>HTTPError\<close> for the statuses 400 to 599.\<close>

definition raises_for_status :: "nat \<Rightarrow> bool" where
  "raises_for_status st = (400 \<le> st \<and> st < 600)"

definition limite_por_pagina :: int where
  "limite_por_pagina = 10000"

definition mk_request :: "string \<Rightarrow> int \<Rightarrow> int \<Rightarrow> request" where
  "mk_request where_clause limite_actual off =
     \<lparr>limit = limite_actual, offset = off,
      where_param = (if where_clause = [] then None else Some where_clause)\<rparr>"

text \<open>
  The \<open>while\<close> loop of \<open>descargar_datos_paginado\<close>. Its state is \<open>todas_las_paginas\<close>,
  \<open>offset\<close> and \<open>total_registros\<close>; \<open>calls\<close> is the list of requests issued so far, in
  order. The result is the exception raised or the pages collected, with the requests
  issued.
  \<^verbatim>\<open>
  while total_registros < max_registros:
      limite_actual = min(limite_por_pagina, max_registros - total_registros)
      query = f"$limit={limite_actual}&$offset={offset}"
      if where_clause:
          query += f"&$where={quote(where_clause)}"
      response = requests.get(url, timeout=90)
      response.raise_for_status()
      df_pagina = pd.read_csv(StringIO(response.text))
      if df_pagina.empty:
          break
      todas_las_paginas.append(df_pagina)
      registros_pagina = len(df_pagina)
      total_registros += registros_pagina
      if registros_pagina < limite_por_pagina:
          break
      offset += limite_por_pagina
  \<close>
\<close>

function paginar ::
  "upstream \<Rightarrow> string \<Rightarrow> int \<Rightarrow> dataframe list \<Rightarrow> int \<Rightarrow> int \<Rightarrow> request list
   \<Rightarrow> (error + dataframe list) \<times> request list" where
  "paginar up where_clause max_reg todas_las_paginas off total_registros calls =
     (if total_registros < max_reg then
        (let limite_actual = min limite_por_pagina (max_reg - total_registros);
             req = mk_request where_clause limite_actual off;
             calls' = calls @ [req]
         in case up (length calls) req of
              TransportFailure \<Rightarrow> (Inl TransportError, calls')
            | Response st txt parsed \<Rightarrow>
                if raises_for_status st then (Inl (HTTPError st txt), calls')
                else (case parsed of
                        None \<Rightarrow> (Inl CsvError, calls')
                      | Some df_pagina \<Rightarrow>
                          if df_empty df_pagina then (Inr todas_las_paginas, calls')
                          else if df_len df_pagina < limite_por_pagina
                          then (Inr (todas_las_paginas @ [df_pagina]), calls')
                          else paginar up where_clause max_reg
                                 (todas_las_paginas @ [df_pagina])
                                 (off + limite_por_pagina)
                                 (total_registros + df_len df_pagina)
                                 calls'))
      else (Inr todas_las_paginas, calls))"
  by pat_completeness auto
termination
  by (relation "measure (\<lambda>(up, w, max_reg, ps, off, total, calls). nat (max_reg - total))")
     (auto simp: limite_por_pagina_def)

declare paginar.simps [simp del]

text \<open>
  \<^verbatim>\<open>
  def descargar_datos_paginado(where_clause, max_registros=50000):
      todas_las_paginas, offset, total_registros = [], 0, 0
      limite_por_pagina = 10000
      while ...
      if not todas_las_paginas:
          return pd.DataFrame()
      return pd.concat(todas_las_paginas, ignore_index=True)
  \<close>
\<close>

definition descargar_datos_paginado ::
  "upstream \<Rightarrow> string \<Rightarrow> int \<Rightarrow> (error + dataframe) \<times> request list" where
  "descargar_datos_paginado up where_clause max_reg =
     (case paginar up where_clause max_reg [] 0 0 [] of
        (Inl e, calls) \<Rightarrow> (Inl e, calls)
      | (Inr todas_las_paginas, calls) \<Rightarrow>
          (Inr (if todas_las_paginas = [] then pd_DataFrame
                else pd_concat todas_las_paginas), calls))"

section \<open>Worksheet\<close>

text \<open>
  The part of an openpyxl worksheet that \<open>crear_excel_en_memoria\<close> touches. \<open>cells\<close> is the
  dictionary \<open>_cells\<close>, keyed by (row, column), both counted from 1; a binding nearer the
  head of the list shadows a later one with the same key. A worksheet cell is an ordinary
  cell with its value or the placeholder \<open>MergedCell\<close>, whose value is \<open>None\<close>. Fonts, fills
  and alignments are left out.
\<close>

datatype wcell = Cell cell | MergedCell

fun value_of :: "wcell \<Rightarrow> cell" where
  "value_of (Cell v) = v"
| "value_of MergedCell = CNone"

text \<open>A cell range by its bounds: (min_col, min_row, max_col, max_row).\<close>

type_synonym cell_range = "nat \<times> nat \<times> nat \<times> nat"

record table =
  displayName :: string
  ref :: string

record worksheet =
  title :: string
  cells :: "((nat \<times> nat) \<times> wcell) list"
  current_row :: nat
  merged_cells :: "cell_range list"
  row_height :: "(nat \<times> nat) list"
  tables :: "table list"
  column_width :: "(string \<times> nat) list"

definition new_worksheet :: "string \<Rightarrow> worksheet" where
  "new_worksheet t =
     \<lparr>title = t, cells = [], current_row = 0, merged_cells = [], row_height = [],
      tables = [], column_width = []\<rparr>"

text \<open>
  Binding a value to a cell. A string is cut to 32767 characters and refused with
  \<open>IllegalCharacterError\<close> when it holds a control character (codes 0 to 8, 11, 12,
  14 to 31); any other value is stored as it is.
\<close>

definition illegal_char :: "char \<Rightarrow> bool" where
  "illegal_char c =
     (let n = (of_char c :: nat)
      in n \<le> 8 \<or> n = 11 \<or> n = 12 \<or> (14 \<le> n \<and> n \<le> 31))"

definition check_string :: "string \<Rightarrow> error + string" where
  "check_string s =
     (let v = take 32767 s
      in if list_ex illegal_char v then Inl IllegalCharacterError else Inr v)"

fun bind_value :: "cell \<Rightarrow> error + cell" where
  "bind_value (CStr s) = (case check_string s of Inl e \<Rightarrow> Inl e | Inr v \<Rightarrow> Inr (CStr v))"
| "bind_value v = Inr v"

fun bind_row :: "cell list \<Rightarrow> error + cell list" where
  "bind_row [] = Inr []"
| "bind_row (v # vs) =
     (case bind_value v of
        Inl e \<Rightarrow> Inl e
      | Inr v' \<Rightarrow> (case bind_row vs of Inl e \<Rightarrow> Inl e | Inr vs' \<Rightarrow> Inr (v' # vs')))"

text \<open>
  \<open>ws[coordinate] = value\<close>: the cell is created when missing, which raises \<open>_current_row\<close>
  to its row.
\<close>

definition set_cell :: "worksheet \<Rightarrow> nat \<times> nat \<Rightarrow> cell \<Rightarrow> error + worksheet" where
  "set_cell ws key v =
     (case bind_value v of
        Inl e \<Rightarrow> Inl e
      | Inr v' \<Rightarrow>
          Inr (ws\<lparr>cells := (key, Cell v') # cells ws,
                  current_row := max (fst key) (current_row ws)\<rparr>))"

text \<open>
  \<open>ws.merge_cells(range)\<close> records the range and stores a \<open>MergedCell\<close> at every position
  of the range but the first (top left) one.
\<close>

definition range_cells :: "cell_range \<Rightarrow> (nat \<times> nat) list" where
  "range_cells r =
     (case r of (c1, r1, c2, r2) \<Rightarrow> List.product [r1 ..< Suc r2] [c1 ..< Suc c2])"

definition merge_cells :: "worksheet \<Rightarrow> cell_range \<Rightarrow> worksheet" where
  "merge_cells ws r =
     ws\<lparr>cells := map (\<lambda>k. (k, MergedCell)) (tl (range_cells r)) @ cells ws,
        merged_cells := merged_cells ws @ [r]\<rparr>"

text \<open>
  \<open>ws.append(values)\<close> writes the values into the row after \<open>_current_row\<close>, from column 1
  on, and makes that row the current one.
\<close>

definition ws_append :: "worksheet \<Rightarrow> cell list \<Rightarrow> error + worksheet" where
  "ws_append ws vals =
     (case bind_row vals of
        Inl e \<Rightarrow> Inl e
      | Inr vs \<Rightarrow>
          (let row_idx = current_row ws + 1
           in Inr (ws\<lparr>cells := map (\<lambda>(col_idx, v). ((row_idx, col_idx), Cell v))
                                  (zip [1 ..< Suc (length vs)] vs) @ cells ws,
                       current_row := row_idx\<rparr>)))"

fun append_rows :: "worksheet \<Rightarrow> cell list list \<Rightarrow> error + worksheet" where
  "append_rows ws [] = Inr ws"
| "append_rows ws (r # rs) =
     (case ws_append ws r of Inl e \<Rightarrow> Inl e | Inr ws' \<Rightarrow> append_rows ws' rs)"

text \<open>
  \<open>ws.max_row\<close> and \<open>ws.max_column\<close>: the greatest row and column among the keys of
  \<open>_cells\<close>, placeholders of merged cells included; 1 when there is no cell.
\<close>

definition ws_max_row :: "worksheet \<Rightarrow> nat" where
  "ws_max_row ws = (case map (fst \<circ> fst) (cells ws) of [] \<Rightarrow> 1 | r # rs \<Rightarrow> fold max rs r)"

definition ws_max_column :: "worksheet \<Rightarrow> nat" where
  "ws_max_column ws = (case map (snd \<circ> fst) (cells ws) of [] \<Rightarrow> 1 | c # cs \<Rightarrow> fold max cs c)"

text \<open>The value of the cell at a position; a position with no cell reads as \<open>None\<close>.\<close>

definition cell_value :: "worksheet \<Rightarrow> nat \<Rightarrow> nat \<Rightarrow> cell" where
  "cell_value ws r c = (case map_of (cells ws) (r, c) of None \<Rightarrow> CNone | Some w \<Rightarrow> value_of w)"

text \<open>
  \<open>get_column_letter\<close>:
  \<^verbatim>\<open>
  if not 1 <= col_idx <= 18278: raise ValueError
  letters = []
  while col_idx > 0:
      col_idx, remainder = divmod(col_idx, 26)
      if remainder == 0:
          remainder = 26
          col_idx -= 1
      letters.append(chr(remainder + 64))
  return ''.join(reversed(letters))
  \<close>
\<close>

definition letter_chr :: "nat \<Rightarrow> char" where
  "letter_chr remainder = ''ABCDEFGHIJKLMNOPQRSTUVWXYZ'' ! (remainder - 1)"

function column_letters :: "nat \<Rightarrow> string \<Rightarrow> string" where
  "column_letters col_idx letters =
     (if col_idx > 0 then
        (if col_idx mod 26 = 0
         then column_letters (col_idx div 26 - 1) (letters @ [letter_chr 26])
         else column_letters (col_idx div 26) (letters @ [letter_chr (col_idx mod 26)]))
      else rev letters)"
  by pat_completeness auto
termination
  by (relation "measure fst") auto

declare column_letters.simps [simp del]

definition get_column_letter :: "nat \<Rightarrow> error + string" where
  "get_column_letter col_idx =
     (if 1 \<le> col_idx \<and> col_idx \<le> 18278 then Inr (column_letters col_idx [])
      else Inl ValueError)"

text \<open>\<open>str\<close> of a cell value, and the truth value Python gives a cell value.\<close>

fun py_str :: "cell \<Rightarrow> string" where
  "py_str CNone = ''None''"
| "py_str (CBool b) = (if b then ''True'' else ''False'')"
| "py_str (CInt i) = str_int i"
| "py_str (CFloat r) = r"
| "py_str (CStr s) = s"

fun truthy :: "cell \<Rightarrow> bool" where
  "truthy CNone = False"
| "truthy (CBool b) = b"
| "truthy (CInt i) = (i \<noteq> 0)"
| "truthy (CFloat r) = (r \<noteq> ''0.0'' \<and> r \<noteq> ''-0.0'')"
| "truthy (CStr s) = (s \<noteq> [])"

text \<open>\<open>len(str(cell.value or ""))\<close>.\<close>

definition len_str_or_empty :: "cell \<Rightarrow> nat" where
  "len_str_or_empty v = length (py_str (if truthy v then v else CStr []))"

section \<open>Workbook emitter\<close>

text \<open>
  \<open>ws.columns\<close> yields, for every column from 1 to \<open>max_column\<close>, the cells of the rows 1
  to \<open>max_row\<close>; on a sheet whose \<open>_current_row\<close> is 0 it yields nothing. A cell of such a
  column is never a tuple, so the \<open>continue\<close> of the source's loop is not taken.
  \<^verbatim>\<open>
  for column_cells in ws_datos.columns:
      if isinstance(column_cells[0], tuple):
          continue
      column_letter = get_column_letter(column_cells[0].column)
      length = max(len(str(cell.value or "")) for cell in column_cells)
      ws_datos.column_dimensions[column_letter].width = length + 2
  \<close>
  \<open>column_width\<close> lists the widths in the order they are assigned.
\<close>

definition ws_columns :: "worksheet \<Rightarrow> (nat \<times> cell list) list" where
  "ws_columns ws =
     (if current_row ws = 0 then []
      else map (\<lambda>c. (c, map (\<lambda>r. cell_value ws r c) [1 ..< Suc (ws_max_row ws)]))
             [1 ..< Suc (ws_max_column ws)])"

definition column_length :: "cell list \<Rightarrow> nat" where
  "column_length column_cells = fold max (map len_str_or_empty column_cells) 0"

fun set_widths :: "worksheet \<Rightarrow> (nat \<times> cell list) list \<Rightarrow> error + worksheet" where
  "set_widths ws [] = Inr ws"
| "set_widths ws ((c, column_cells) # cols) =
     (case get_column_letter c of
        Inl e \<Rightarrow> Inl e
      | Inr column_letter \<Rightarrow>
          set_widths
            (ws\<lparr>column_width := column_width ws
                   @ [(column_letter, column_length column_cells + 2)]\<rparr>)
            cols)"

definition caption :: string where
  "caption = ''Sociedad Colombiana de Consultoria SAS''"

text \<open>
  \<open>crear_excel_en_memoria\<close>, up to the worksheet that \<open>wb.save\<close> writes out:
  \<^verbatim>\<open>
  ws_datos = wb.active
  ws_datos.title = "Datos SECOP2"
  ws_datos['A1'] = "Sociedad Colombiana de Consultoria SAS"
  ws_datos.merge_cells('A1:J1')
  ws_datos.row_dimensions[1].height = 30
  column_names = list(df.columns)
  ws_datos.append(column_names)
  for row in dataframe_to_rows(df, index=False, header=False):
      ws_datos.append(row)
  tab = Table(displayName="TablaDatos",
              ref=f"A2:{get_column_letter(ws_datos.max_column)}{ws_datos.max_row}")
  ws_datos.add_table(tab)
  for column_cells in ws_datos.columns: ...
  \<close>
\<close>

definition crear_excel_en_memoria :: "dataframe \<Rightarrow> error + worksheet" where
  "crear_excel_en_memoria df =
     (case set_cell (new_worksheet ''Datos SECOP2'') (1, 1) (CStr caption) of
        Inl e \<Rightarrow> Inl e
      | Inr ws1 \<Rightarrow>
          (let ws2 = merge_cells ws1 (1, 1, 10, 1);
               ws3 = ws2\<lparr>row_height := row_height ws2 @ [(1, 30)]\<rparr>
           in case ws_append ws3 (map CStr (columns df)) of
                Inl e \<Rightarrow> Inl e
              | Inr ws4 \<Rightarrow>
                  (case append_rows ws4 (rows df) of
                     Inl e \<Rightarrow> Inl e
                   | Inr ws5 \<Rightarrow>
                       (case get_column_letter (ws_max_column ws5) of
                          Inl e \<Rightarrow> Inl e
                        | Inr letter \<Rightarrow>
                            (let tab = \<lparr>displayName = ''TablaDatos'',
                                        ref = ''A2:'' @ letter @ str_nat (ws_max_row ws5)\<rparr>;
                                 ws6 = ws5\<lparr>tables := tables ws5 @ [tab]\<rparr>
                             in set_widths ws6 (ws_columns ws6))))))"

section \<open>Boundary entry point\<close>

text \<open>
  The outcomes of \<open>handle_query\<close>: the four error statuses and the file sent. \<open>expirado\<close> is
  the result of the expiration test \<open>datetime.now() > fecha_limite\<close>. The second component
  of the result lists the HTTP calls made.
  \<^verbatim>\<open>
  try:
      where_clause = construir_consulta_where(filtros)
      max_registros = int(filtros.get('max_registros', 50000))
      df = descargar_datos_paginado(where_clause, max_registros=max_registros)
      if df.empty:
          return jsonify({"error": ...}), 404
      excel_file = crear_excel_en_memoria(df)
      return send_file(excel_file, ...)
  except requests.exceptions.HTTPError as e:
      return jsonify({"error": f"...: {e.response.text}"}), 502
  except Exception as e:
      return jsonify({"error": ...}), 500
  \<close>
\<close>

datatype outcome =
    Expired_403
  | Not_found_404
  | Bad_gateway_502 string
  | Internal_500
  | Send_file worksheet

definition handle_query :: "bool \<Rightarrow> upstream \<Rightarrow> filtros \<Rightarrow> outcome \<times> request list" where
  "handle_query expirado up f =
     (if expirado then (Expired_403, [])
      else
        (let where_clause = construir_consulta_where f;
             max_reg = (case max_registros f of None \<Rightarrow> 50000 | Some n \<Rightarrow> n)
         in case descargar_datos_paginado up where_clause max_reg of
              (Inl (HTTPError st txt), calls) \<Rightarrow> (Bad_gateway_502 txt, calls)
            | (Inl e, calls) \<Rightarrow> (Internal_500, calls)
            | (Inr df, calls) \<Rightarrow>
                if df_empty df then (Not_found_404, calls)
                else (case crear_excel_en_memoria df of
                        Inl e \<Rightarrow> (Internal_500, calls)
                      | Inr excel_file \<Rightarrow> (Send_file excel_file, calls))))"

section \<open>Notions used to state the properties\<close>









definition up_vacia :: upstream where
  "up_vacia i req = Response 200 ''id'' (Some \<lparr>columns = [''id''], rows = []\<rparr>)"

definition up_llena :: upstream where
  "up_llena i req =
     Response 200 [] (Some \<lparr>columns = [''id''], rows = replicate (nat (limit req)) [CInt 7]\<rparr>)"


definition filtros_cap :: "int \<Rightarrow> filtros" where
  "filtros_cap n = \<lparr>campos = Map.empty, max_registros = Some n\<rparr>"

text \<open>
  The table of two columns and two rows used in the concrete runs of the emitter, and the
  worksheet the emitter makes of it.
\<close>

definition tabla_ejemplo :: dataframe where
  "tabla_ejemplo =
     \<lparr>columns = [''id'', ''name''],
      rows = [[CStr ''1'', CStr ''Acme''], [CStr ''2'', CStr ''Beta'']]\<rparr>"

definition hoja_ejemplo :: worksheet where
  "hoja_ejemplo =
     \<lparr>title = ''Datos SECOP2'',
      cells =
        [((4, 1), Cell (CStr ''2'')), ((4, 2), Cell (CStr ''Beta'')),
         ((3, 1), Cell (CStr ''1'')), ((3, 2), Cell (CStr ''Acme'')),
         ((2, 1), Cell (CStr ''id'')), ((2, 2), Cell (CStr ''name'')),
         ((1, 2), MergedCell), ((1, 3), MergedCell), ((1, 4), MergedCell),
         ((1, 5), MergedCell), ((1, 6), MergedCell), ((1, 7), MergedCell),
         ((1, 8), MergedCell), ((1, 9), MergedCell), ((1, 10), MergedCell),
         ((1, 1), Cell (CStr ''Sociedad Colombiana de Consultoria SAS''))],
      current_row = 4,
      merged_cells = [(1, 1, 10, 1)],
      row_height = [(1, 30)],
      tables = [\<lparr>displayName = ''TablaDatos'', ref = ''A2:J4''\<rparr>],
      column_width =
        [(''A'', 40), (''B'', 6), (''C'', 2), (''D'', 2), (''E'', 2),
         (''F'', 2), (''G'', 2), (''H'', 2), (''I'', 2), (''J'', 2)]\<rparr>"




text \<open>The number of columns a cell range spans.\<close>

definition span_columns :: "cell_range \<Rightarrow> nat" where
  "span_columns r = (case r of (c1, r1, c2, r2) \<Rightarrow> Suc c2 - c1)"

text \<open>
  The width that claim C8 states for the column at position \<open>j\<close> of a table, following the
  claim's words: 2 more than the longest text among the header and the data cells of that
  column, a missing cell counting for nothing.
\<close>

definition claimed_len :: "cell \<Rightarrow> nat" where
  "claimed_len v =
     (case v of
        CNone \<Rightarrow> 0
      | CFloat r \<Rightarrow> if r = ''nan'' then 0 else length r
      | _ \<Rightarrow> length (py_str v))"

definition claimed_width :: "dataframe \<Rightarrow> nat \<Rightarrow> nat" where
  "claimed_width df j =
     fold max
       (map claimed_len
          (CStr (columns df ! j)
           # map (\<lambda>row. if j < length row then row ! j else CNone) (rows df))) 0 + 2"

text \<open>A payload whose start date holds single quotes, and one whose status is a blank.\<close>

definition filtros_fecha :: filtros where
  "filtros_fecha =
     \<lparr>campos = [''fecha_inicio'' \<mapsto> ''2024-01-01' OR '1'<'2''], max_registros = None\<rparr>"

definition filtros_estado :: filtros where
  "filtros_estado = \<lparr>campos = [''estado_del_procedimiento'' \<mapsto> '' ''], max_registros = None\<rparr>"

section \<open>Properties of the paginated fetcher\<close>

lemma paginar_done: "\<not> tot < cap \<Longrightarrow> paginar up w cap ps off tot calls = (Inr ps, calls)"
  by (subst paginar.simps) simp


lemma paginar_unfold:
  "tot < cap \<Longrightarrow> paginar up w cap ps off tot calls =
     (case up (length calls) (mk_request w (min limite_por_pagina (cap - tot)) off) of
        TransportFailure \<Rightarrow>
          (Inl TransportError, calls @ [mk_request w (min limite_por_pagina (cap - tot)) off])
      | Response st body parsed \<Rightarrow>
          if raises_for_status st
          then (Inl (HTTPError st body), calls @ [mk_request w (min limite_por_pagina (cap - tot)) off])
          else (case parsed of
                  None \<Rightarrow> (Inl CsvError, calls @ [mk_request w (min limite_por_pagina (cap - tot)) off])
                | Some df \<Rightarrow>
                    if df_empty df
                    then (Inr ps, calls @ [mk_request w (min limite_por_pagina (cap - tot)) off])
                    else if df_len df < limite_por_pagina
                    then (Inr (ps @ [df]), calls @ [mk_request w (min limite_por_pagina (cap - tot)) off])
                    else paginar up w cap (ps @ [df]) (off + limite_por_pagina) (tot + df_len df)
                           (calls @ [mk_request w (min limite_por_pagina (cap - tot)) off])))"
  by (subst paginar.simps) (simp add: Let_def)





























lemma handle_query_table:
  "descargar_datos_paginado up (construir_consulta_where f)
     (case max_registros f of None \<Rightarrow> 50000 | Some n \<Rightarrow> n) = (Inr df, calls) \<Longrightarrow>
   handle_query False up f =
     (if df_empty df then Not_found_404
      else (case crear_excel_en_memoria df of Inl e \<Rightarrow> Internal_500
            | Inr excel_file \<Rightarrow> Send_file excel_file), calls)"
  by (simp add: handle_query_def split: sum.splits)


lemma construir_sin_campos: "campos f = Map.empty \<Longrightarrow> construir_consulta_where f = []"
  by (simp add: construir_consulta_where_def condiciones_def cond_proceso_def cond_multiple_def
      cond_exacta_def cond_fecha_def presente_def campos_multiples_def)










text \<open>
  Claim C9. When the fetch of a request returns a table with zero rows, \<open>handle_query\<close>
  answers 404 and sends no workbook; 404 differs from the outcomes 502, 500 and the file.
  The witness is the run with \<open>max_registros = 100\<close> whose first page is empty.
\<close>

theorem c9_empty_result_not_found:
  assumes "descargar_datos_paginado up (construir_consulta_where f)
             (case max_registros f of None \<Rightarrow> 50000 | Some n \<Rightarrow> n) = (Inr df, calls)"
    and "rows df = []"
  shows "handle_query False up f = (Not_found_404, calls)
       \<and> (\<forall>body. Not_found_404 \<noteq> Bad_gateway_502 body)
       \<and> Not_found_404 \<noteq> Internal_500
       \<and> (\<forall>excel_file. Not_found_404 \<noteq> Send_file excel_file)"
  using handle_query_table[OF assms(1)] assms(2) by (simp add: df_empty_def)

lemma descargar_up_vacia:
  "descargar_datos_paginado up_vacia [] 100
     = (Inr pd_DataFrame, [\<lparr>limit = 100, offset = 0, where_param = None\<rparr>])"
  by (simp add: descargar_datos_paginado_def paginar_unfold up_vacia_def raises_for_status_def
      mk_request_def limite_por_pagina_def df_empty_def)

theorem c9_empty_result_not_found_witness:
  "up_vacia 0 \<lparr>limit = 100, offset = 0, where_param = None\<rparr>
     = Response 200 ''id'' (Some \<lparr>columns = [''id''], rows = []\<rparr>)
   \<and> descargar_datos_paginado up_vacia (construir_consulta_where (filtros_cap 100)) 100
       = (Inr pd_DataFrame, [\<lparr>limit = 100, offset = 0, where_param = None\<rparr>])
   \<and> rows pd_DataFrame = []
   \<and> handle_query False up_vacia (filtros_cap 100)
       = (Not_found_404, [\<lparr>limit = 100, offset = 0, where_param = None\<rparr>])"
proof -
  have w: "construir_consulta_where (filtros_cap 100) = []"
    by (simp add: construir_sin_campos filtros_cap_def)
  have d: "descargar_datos_paginado up_vacia (construir_consulta_where (filtros_cap 100))
             (case max_registros (filtros_cap 100) of None \<Rightarrow> 50000 | Some n \<Rightarrow> n)
           = (Inr pd_DataFrame, [\<lparr>limit = 100, offset = 0, where_param = None\<rparr>])"
    by (simp add: w) (simp add: filtros_cap_def descargar_up_vacia)
  have r: "rows pd_DataFrame = []" by (simp add: pd_DataFrame_def)
  show ?thesis
    using c9_empty_result_not_found[OF d r] r
    by (simp add: up_vacia_def w descargar_up_vacia)
qed

text \<open>
  Claim C10. For a record cap that is zero or negative the fetch issues no call and returns
  the empty table (no rows, no columns); \<open>handle_query\<close> passes the cap on unchecked, so
  such a request ends in the outcome 404 with no call made.
\<close>

theorem c10_nonpositive_cap:
  assumes "n \<le> 0"
  shows "descargar_datos_paginado up w n = (Inr pd_DataFrame, [])
       \<and> rows pd_DataFrame = [] \<and> columns pd_DataFrame = []
       \<and> (max_registros f = Some n \<longrightarrow> handle_query False up f = (Not_found_404, []))"
proof -
  have d: "descargar_datos_paginado up w n = (Inr pd_DataFrame, [])" for w
    using assms by (simp add: descargar_datos_paginado_def paginar_done)
  have "handle_query False up f = (Not_found_404, [])" if "max_registros f = Some n"
    using d[of "construir_consulta_where f"] that
    by (simp add: handle_query_def df_empty_def pd_DataFrame_def)
  then show ?thesis using d by (simp add: pd_DataFrame_def)
qed

theorem c10_nonpositive_cap_witness:
  "(- 5 :: int) \<le> 0
   \<and> descargar_datos_paginado up_llena ''x'' (- 5) = (Inr pd_DataFrame, [])
   \<and> rows pd_DataFrame = [] \<and> columns pd_DataFrame = []
   \<and> handle_query False up_llena (filtros_cap (- 5)) = (Not_found_404, [])"
  using c10_nonpositive_cap[of "- 5" up_llena "''x''" "filtros_cap (- 5)"]
  by (simp add: filtros_cap_def)

section \<open>Properties of the workbook emitter and of the predicate builder\<close>

lemma check_string_caption: "check_string caption = Inr caption"
  by (simp add: check_string_def caption_def illegal_char_def)

lemma crear_ejemplo: "crear_excel_en_memoria tabla_ejemplo = Inr hoja_ejemplo"
  by (simp add: crear_excel_en_memoria_def tabla_ejemplo_def hoja_ejemplo_def set_cell_def
      check_string_caption new_worksheet_def merge_cells_def range_cells_def ws_append_def
      check_string_def illegal_char_def ws_max_column_def ws_max_row_def get_column_letter_def
      column_letters.simps letter_chr_def str_nat.simps digit_chr_def ws_columns_def cell_value_def
      column_length_def len_str_or_empty_def caption_def Let_def upt_rec)


lemma set_cell_Inr:
  "set_cell ws key v = Inr ws' \<Longrightarrow>
   \<exists>v'. bind_value v = Inr v'
        \<and> ws' = ws\<lparr>cells := (key, Cell v') # cells ws, current_row := max (fst key) (current_row ws)\<rparr>"
  by (auto simp: set_cell_def split: sum.splits)

lemma ws_append_Inr:
  "ws_append ws vals = Inr ws' \<Longrightarrow>
   \<exists>vs. bind_row vals = Inr vs
        \<and> ws' = ws\<lparr>cells := map (\<lambda>(col_idx, v). ((Suc (current_row ws), col_idx), Cell v))
                                  (zip [1 ..< Suc (length vs)] vs) @ cells ws,
                   current_row := Suc (current_row ws)\<rparr>"
  by (auto simp: ws_append_def Let_def split: sum.splits)

lemma map_of_row_cells_other:
  "r' \<noteq> r \<Longrightarrow> map_of (map (\<lambda>(col_idx, v). ((r, col_idx), Cell v)) xs) (r', c) = None"
  by (induction xs) auto

lemma ws_append_keeps:
  assumes "ws_append ws vals = Inr ws'"
  shows "merged_cells ws' = merged_cells ws" and "column_width ws' = column_width ws"
    and "tables ws' = tables ws" and "current_row ws' = Suc (current_row ws)"
    and "r \<le> current_row ws \<Longrightarrow> map_of (cells ws') (r, c) = map_of (cells ws) (r, c)"
  using ws_append_Inr[OF assms] by (auto simp: map_add_def map_of_row_cells_other)

lemma append_rows_keeps:
  "append_rows ws rs = Inr ws' \<Longrightarrow>
   merged_cells ws' = merged_cells ws \<and> column_width ws' = column_width ws
   \<and> tables ws' = tables ws \<and> current_row ws' = current_row ws + length rs
   \<and> (\<forall>r c. r \<le> current_row ws \<longrightarrow> map_of (cells ws') (r, c) = map_of (cells ws) (r, c))"
proof (induction rs arbitrary: ws)
  case Nil
  then show ?case by simp
next
  case (Cons a rs)
  from Cons.prems obtain ws1 where a: "ws_append ws a = Inr ws1" and r: "append_rows ws1 rs = Inr ws'"
    by (auto split: sum.splits)
  from Cons.IH[OF r] ws_append_keeps[OF a] show ?case by auto
qed

lemma get_column_letter_Inr:
  "get_column_letter c = Inr l \<Longrightarrow> l = column_letters c [] \<and> 1 \<le> c \<and> c \<le> 18278"
  by (auto simp: get_column_letter_def split: if_splits)

lemma set_widths_Inr:
  "set_widths ws cols = Inr ws' \<Longrightarrow>
   ws' = ws\<lparr>column_width := column_width ws
              @ map (\<lambda>(c, column_cells). (column_letters c [], column_length column_cells + 2)) cols\<rparr>"
proof (induction cols arbitrary: ws)
  case Nil
  then show ?case by simp
next
  case (Cons a cols)
  obtain c column_cells where a: "a = (c, column_cells)" by (cases a)
  from Cons.prems a obtain l where l: "get_column_letter c = Inr l"
    and r: "set_widths (ws\<lparr>column_width := column_width ws @ [(l, column_length column_cells + 2)]\<rparr>) cols
            = Inr ws'"
    by (auto split: sum.splits)
  from Cons.IH[OF r] get_column_letter_Inr[OF l] a show ?case by simp
qed

lemma crear_excel_steps:
  assumes "crear_excel_en_memoria df = Inr ws"
  obtains ws4 ws5 where
    "ws_append
       ((merge_cells (new_worksheet ''Datos SECOP2''
            \<lparr>cells := [((1, 1), Cell (CStr caption))], current_row := 1\<rparr>) (1, 1, 10, 1))
          \<lparr>row_height := [(1, 30)]\<rparr>)
       (map CStr (columns df)) = Inr ws4"
    and "append_rows ws4 (rows df) = Inr ws5"
    and "ws_max_column ws5 \<le> 18278"
    and "ws = ws5\<lparr>tables := tables ws5 @ [\<lparr>displayName = ''TablaDatos'',
                      ref = ''A2:'' @ column_letters (ws_max_column ws5) [] @ str_nat (ws_max_row ws5)\<rparr>],
                  column_width := column_width ws5
                    @ map (\<lambda>(c, column_cells). (column_letters c [], column_length column_cells + 2))
                        (ws_columns (ws5\<lparr>tables := tables ws5 @ [\<lparr>displayName = ''TablaDatos'',
                      ref = ''A2:'' @ column_letters (ws_max_column ws5) [] @ str_nat (ws_max_row ws5)\<rparr>]\<rparr>))\<rparr>"
proof -
  have s1: "set_cell (new_worksheet ''Datos SECOP2'') (1, 1) (CStr caption)
            = Inr (new_worksheet ''Datos SECOP2''
                     \<lparr>cells := [((1, 1), Cell (CStr caption))], current_row := 1\<rparr>)"
    by (simp add: set_cell_def check_string_caption new_worksheet_def)
  from assms obtain ws4 ws5 letter where
    a: "ws_append
       ((merge_cells (new_worksheet ''Datos SECOP2''
            \<lparr>cells := [((1, 1), Cell (CStr caption))], current_row := 1\<rparr>) (1, 1, 10, 1))
          \<lparr>row_height := [(1, 30)]\<rparr>)
       (map CStr (columns df)) = Inr ws4"
    and b: "append_rows ws4 (rows df) = Inr ws5"
    and c: "get_column_letter (ws_max_column ws5) = Inr letter"
    and d: "set_widths (ws5\<lparr>tables := tables ws5 @ [\<lparr>displayName = ''TablaDatos'',
                      ref = ''A2:'' @ letter @ str_nat (ws_max_row ws5)\<rparr>]\<rparr>)
              (ws_columns (ws5\<lparr>tables := tables ws5 @ [\<lparr>displayName = ''TablaDatos'',
                      ref = ''A2:'' @ letter @ str_nat (ws_max_row ws5)\<rparr>]\<rparr>)) = Inr ws"
    unfolding crear_excel_en_memoria_def s1
    by (auto simp: Let_def merge_cells_def new_worksheet_def split: sum.splits)
  from get_column_letter_Inr[OF c] set_widths_Inr[OF d] a b that show thesis
    by simp
qed


lemma fold_max_ge_init: "a \<le> fold max xs (a::nat)"
  by (induction xs arbitrary: a) (auto intro: order_trans[OF max.cobounded2])

lemma fold_max_ge_elem: "x \<in> set xs \<Longrightarrow> x \<le> fold max xs (a::nat)"
proof (induction xs arbitrary: a)
  case Nil
  then show ?case by simp
next
  case (Cons y ys)
  show ?case
  proof (cases "x = y")
    case True
    have "y \<le> max y a" by simp
    also have "\<dots> \<le> fold max ys (max y a)" by (rule fold_max_ge_init)
    finally show ?thesis using True by simp
  next
    case False
    then show ?thesis using Cons by simp
  qed
qed

lemma key_le_max:
  assumes "map_of (cells ws) (r, c) = Some w"
  shows "r \<le> ws_max_row ws" and "c \<le> ws_max_column ws"
proof -
  from assms have m: "((r, c), w) \<in> set (cells ws)" by (rule map_of_SomeD)
  then obtain k ks where ks: "cells ws = k # ks" by (cases "cells ws") auto
  have "r \<in> set (map (fst \<circ> fst) (cells ws))" using m by force
  then have "r = fst (fst k) \<or> r \<in> set (map (fst \<circ> fst) ks)" using ks by auto
  then show "r \<le> ws_max_row ws"
    using fold_max_ge_init[of "fst (fst k)" "map (fst \<circ> fst) ks"]
      fold_max_ge_elem[of r "map (fst \<circ> fst) ks" "fst (fst k)"]
    by (auto simp: ws_max_row_def ks)
  have "c \<in> set (map (snd \<circ> fst) (cells ws))" using m by force
  then have "c = snd (fst k) \<or> c \<in> set (map (snd \<circ> fst) ks)" using ks by auto
  then show "c \<le> ws_max_column ws"
    using fold_max_ge_init[of "snd (fst k)" "map (snd \<circ> fst) ks"]
      fold_max_ge_elem[of c "map (snd \<circ> fst) ks" "snd (fst k)"]
    by (auto simp: ws_max_column_def ks)
qed

lemma crear_excel_caption:
  assumes "crear_excel_en_memoria df = Inr ws"
  shows "map_of (cells ws) (1, 1) = Some (Cell (CStr caption))"
proof -
  from assms obtain ws4 ws5 where
    a: "ws_append
       ((merge_cells (new_worksheet ''Datos SECOP2''
            \<lparr>cells := [((1, 1), Cell (CStr caption))], current_row := 1\<rparr>) (1, 1, 10, 1))
          \<lparr>row_height := [(1, 30)]\<rparr>)
       (map CStr (columns df)) = Inr ws4"
    and b: "append_rows ws4 (rows df) = Inr ws5"
    and c: "cells ws = cells ws5"
    by (rule crear_excel_steps) simp
  have "map_of (cells ws5) (1, 1) = map_of (cells ws4) (1, 1)"
    using append_rows_keeps[OF b] ws_append_keeps(4)[OF a] by simp
  also have "\<dots> = Some (Cell (CStr caption))"
    using ws_append_keeps(5)[OF a, of 1 1]
    by (simp add: merge_cells_def new_worksheet_def range_cells_def upt_rec)
  finally show ?thesis using c by simp
qed

text \<open>
  Claim C7, as the code has it. For every table the emitter renders, the banner on row 1
  is the merged range \<open>A1:J1\<close>: it spans exactly ten columns, whatever the number of columns
  of the table.
\<close>

theorem c7_banner_merge:
  assumes "crear_excel_en_memoria df = Inr ws"
  shows "merged_cells ws = [(1, 1, 10, 1)] \<and> map span_columns (merged_cells ws) = [10]"
proof -
  from assms obtain ws4 ws5 where
    a: "ws_append
       ((merge_cells (new_worksheet ''Datos SECOP2''
            \<lparr>cells := [((1, 1), Cell (CStr caption))], current_row := 1\<rparr>) (1, 1, 10, 1))
          \<lparr>row_height := [(1, 30)]\<rparr>)
       (map CStr (columns df)) = Inr ws4"
    and b: "append_rows ws4 (rows df) = Inr ws5"
    and c: "merged_cells ws = merged_cells ws5"
    by (rule crear_excel_steps) simp
  have "merged_cells ws = [(1, 1, 10, 1)]"
    using c append_rows_keeps[OF b] ws_append_keeps(1)[OF a]
    by (simp add: merge_cells_def new_worksheet_def)
  then show ?thesis by (simp add: span_columns_def)
qed

theorem c7_banner_merge_witness:
  "crear_excel_en_memoria tabla_ejemplo = Inr hoja_ejemplo
   \<and> merged_cells hoja_ejemplo = [(1, 1, 10, 1)]
   \<and> map span_columns (merged_cells hoja_ejemplo) = [10]"
  using c7_banner_merge[OF crear_ejemplo] crear_ejemplo by blast

text \<open>For the table of two columns the merge spans ten columns, not two.\<close>

theorem c7_banner_merge_counterexample:
  "crear_excel_en_memoria tabla_ejemplo = Inr hoja_ejemplo
   \<and> length (columns tabla_ejemplo) = 2
   \<and> map span_columns (merged_cells hoja_ejemplo) \<noteq> [min 10 (length (columns tabla_ejemplo))]"
  by (simp add: crear_ejemplo) (simp add: tabla_ejemplo_def hoja_ejemplo_def span_columns_def)

text \<open>
  Claim C8, as the code has it. For every table the emitter renders, the widths are assigned
  to the worksheet columns 1 to \<open>max_column\<close> in order, and the width of a column is 2 more
  than the greatest \<open>len(str(value or ""))\<close> over all the cells of that worksheet column in the
  rows 1 to \<open>max_row\<close>: a value that Python takes as false counts for nothing, and row 1
  is measured too. Cell \<open>A1\<close> holds the caption, so column \<open>A\<close> is at least 40 wide.
\<close>

theorem c8_column_widths:
  assumes "crear_excel_en_memoria df = Inr ws"
  shows "column_width ws =
           map (\<lambda>c. (column_letters c [],
                      column_length (map (\<lambda>r. cell_value ws r c) [1 ..< Suc (ws_max_row ws)]) + 2))
               [1 ..< Suc (ws_max_column ws)]
       \<and> cell_value ws 1 1 = CStr caption
       \<and> fst (hd (column_width ws)) = ''A''
       \<and> 40 \<le> snd (hd (column_width ws))"
proof -
  from assms obtain ws4 ws5 where
    a: "ws_append
       ((merge_cells (new_worksheet ''Datos SECOP2''
            \<lparr>cells := [((1, 1), Cell (CStr caption))], current_row := 1\<rparr>) (1, 1, 10, 1))
          \<lparr>row_height := [(1, 30)]\<rparr>)
       (map CStr (columns df)) = Inr ws4"
    and b: "append_rows ws4 (rows df) = Inr ws5"
    and c: "cells ws = cells ws5"
    and w: "column_width ws = column_width ws5
              @ map (\<lambda>(c, column_cells). (column_letters c [], column_length column_cells + 2))
                  (ws_columns (ws5\<lparr>tables := tables ws5 @ [\<lparr>displayName = ''TablaDatos'',
                      ref = ''A2:'' @ column_letters (ws_max_column ws5) [] @ str_nat (ws_max_row ws5)\<rparr>]\<rparr>))"
    by (rule crear_excel_steps) simp
  let ?ws6 = "ws5\<lparr>tables := tables ws5 @ [\<lparr>displayName = ''TablaDatos'',
                      ref = ''A2:'' @ column_letters (ws_max_column ws5) [] @ str_nat (ws_max_row ws5)\<rparr>]\<rparr>"
  have cr: "current_row ?ws6 \<noteq> 0"
    using append_rows_keeps[OF b] ws_append_keeps(4)[OF a] by simp
  have w0: "column_width ws5 = []"
    using append_rows_keeps[OF b] ws_append_keeps(2)[OF a]
    by (simp add: merge_cells_def new_worksheet_def)
  have same: "ws_max_row ?ws6 = ws_max_row ws" "ws_max_column ?ws6 = ws_max_column ws"
    "cell_value ?ws6 = cell_value ws"
    using c by (simp_all add: ws_max_row_def ws_max_column_def cell_value_def fun_eq_iff)
  have widths: "column_width ws =
           map (\<lambda>c. (column_letters c [],
                      column_length (map (\<lambda>r. cell_value ws r c) [1 ..< Suc (ws_max_row ws)]) + 2))
               [1 ..< Suc (ws_max_column ws)]"
    unfolding w w0 ws_columns_def same using cr by (simp add: comp_def)
  from crear_excel_caption[OF assms]
  have cap: "map_of (cells ws) (1, 1) = Some (Cell (CStr caption))" .
  have v: "cell_value ws 1 1 = CStr caption" using cap by (simp add: cell_value_def)
  have mr: "1 \<le> ws_max_row ws" and mc: "1 \<le> ws_max_column ws"
    using key_le_max[OF cap] by simp_all
  have hd1: "hd [1 ..< Suc (ws_max_column ws)] = 1" "[1 ..< Suc (ws_max_column ws)] \<noteq> []"
    using mc by (simp_all add: upt_conv_Cons del: upt_Suc)
  have mem: "(1::nat) \<in> set [1 ..< Suc (ws_max_row ws)]" using mr by (simp del: upt_Suc)
  have "(\<lambda>r. len_str_or_empty (cell_value ws r 1)) 1
          \<in> (\<lambda>r. len_str_or_empty (cell_value ws r 1)) ` set [1 ..< Suc (ws_max_row ws)]"
    using mem by (rule imageI)
  then have "len_str_or_empty (cell_value ws 1 1)
          \<in> set (map len_str_or_empty (map (\<lambda>r. cell_value ws r 1) [1 ..< Suc (ws_max_row ws)]))"
    by (simp only: set_map image_image)
  then have "len_str_or_empty (cell_value ws 1 1)
          \<le> column_length (map (\<lambda>r. cell_value ws r 1) [1 ..< Suc (ws_max_row ws)])"
    unfolding column_length_def by (rule fold_max_ge_elem)
  moreover have "len_str_or_empty (cell_value ws 1 1) = 38"
    unfolding v by (simp add: len_str_or_empty_def caption_def)
  ultimately have big: "38 \<le> column_length (map (\<lambda>r. cell_value ws r 1) [1 ..< Suc (ws_max_row ws)])"
    by (simp only:)
  have letter: "column_letters 1 [] = ''A''"
    by (simp add: column_letters.simps letter_chr_def)
  have "hd (column_width ws)
          = (column_letters 1 [],
             column_length (map (\<lambda>r. cell_value ws r 1) [1 ..< Suc (ws_max_row ws)]) + 2)"
    by (subst widths) (simp only: hd_map[OF hd1(2)] hd1(1))
  then have "fst (hd (column_width ws)) = ''A''" and "40 \<le> snd (hd (column_width ws))"
    using big letter by simp_all
  with widths v show ?thesis by (simp only: simp_thms)
qed

theorem c8_column_widths_witness:
  "crear_excel_en_memoria tabla_ejemplo = Inr hoja_ejemplo
   \<and> column_width hoja_ejemplo =
           map (\<lambda>c. (column_letters c [],
                      column_length (map (\<lambda>r. cell_value hoja_ejemplo r c)
                                       [1 ..< Suc (ws_max_row hoja_ejemplo)]) + 2))
               [1 ..< Suc (ws_max_column hoja_ejemplo)]
   \<and> cell_value hoja_ejemplo 1 1 = CStr caption
   \<and> fst (hd (column_width hoja_ejemplo)) = ''A''
   \<and> 40 \<le> snd (hd (column_width hoja_ejemplo))"
  using c8_column_widths[OF crear_ejemplo] crear_ejemplo by blast

text \<open>
  For the table of two columns, column \<open>A\<close> is given the width 40, while its header and data
  cells (\<open>id\<close>, \<open>1\<close>, \<open>2\<close>) call for 4.
\<close>

theorem c8_banner_measured_counterexample:
  "crear_excel_en_memoria tabla_ejemplo = Inr hoja_ejemplo
   \<and> map_of (column_width hoja_ejemplo) ''A'' = Some 40
   \<and> claimed_width tabla_ejemplo 0 = 4"
  by (simp add: crear_ejemplo)
     (simp add: hoja_ejemplo_def tabla_ejemplo_def claimed_width_def claimed_len_def)

text \<open>
  Claim C6 on the code. The table with columns \<open>id\<close>, \<open>name\<close> and rows \<open>1, Acme\<close> and
  \<open>2, Beta\<close> is rendered with the header in row 2 and the data, unchanged and in order, in
  rows 3 and 4. The placeholders of the merged banner reach column \<open>J\<close>, so \<open>max_column\<close> is
  10 and the registered table region is \<open>A2:J4\<close>: rows 2 to 4, but ten columns instead of
  the two of the table.
\<close>

theorem c6_table_region_ejemplo:
  "crear_excel_en_memoria tabla_ejemplo = Inr hoja_ejemplo
   \<and> map (cell_value hoja_ejemplo 2) [1, 2] = [CStr ''id'', CStr ''name'']
   \<and> map (cell_value hoja_ejemplo 3) [1, 2] = [CStr ''1'', CStr ''Acme'']
   \<and> map (cell_value hoja_ejemplo 4) [1, 2] = [CStr ''2'', CStr ''Beta'']
   \<and> ws_max_row hoja_ejemplo = 4
   \<and> ws_max_column hoja_ejemplo = 10
   \<and> map ref (tables hoja_ejemplo) = [''A2:J4'']"
  by (simp add: crear_ejemplo)
     (simp add: hoja_ejemplo_def cell_value_def ws_max_row_def ws_max_column_def)

text \<open>
  Claim C3 on the code. The start date is put between the quotes of the clause as it comes:
  its single quotes are not doubled, unlike those of every other field.
\<close>

theorem c3_date_not_escaped:
  "construir_consulta_where filtros_fecha
     = ''fecha_de_publicacion_del >= '' @ [sq] @ ''2024-01-01' OR '1'<'2T00:00:00'' @ [sq]
   \<and> construir_consulta_where filtros_fecha
     \<noteq> ''fecha_de_publicacion_del >= '' @ [sq]
        @ escapar_sql_mejorado ''2024-01-01' OR '1'<'2'' @ ''T00:00:00'' @ [sq]"
  by (simp add: construir_consulta_where_def condiciones_def cond_proceso_def cond_multiple_def
      cond_exacta_def cond_fecha_def presente_def campos_multiples_def filtros_fecha_def
      escapar_sql_mejorado_def strip_def replace_quote_def is_space_def sq_def)

text \<open>
  Claim C5 on the code. A status made of one blank passes the test \<open>filtros.get(...)\<close> and
  is trimmed afterwards: the field contributes the clause \<open>estado_del_procedimiento = ''\<close>,
  while the payload without the field gives the empty predicate.
\<close>

theorem c5_blank_status_clause:
  "construir_consulta_where filtros_estado = ''estado_del_procedimiento = '' @ [sq, sq]
   \<and> construir_consulta_where (filtros_estado\<lparr>campos := Map.empty\<rparr>) = []"
  by (simp add: construir_consulta_where_def condiciones_def cond_proceso_def cond_multiple_def
      cond_exacta_def cond_fecha_def presente_def campos_multiples_def filtros_estado_def
      escapar_sql_mejorado_def strip_def replace_quote_def is_space_def sq_def)


section \<open>Responses that are not mapped to 502\<close>





end
